theory Spec2Isabelle
  imports Main
begin

section \<open>JavaScript values used by the server\<close>

text \<open>
  The numbers that occur in \<open>server.js\<close> are integers or \<open>NaN\<close> (an Invalid Date
  reads as \<open>NaN\<close> through every getter, and \<open>NaN\<close> propagates through subtraction).
  Every comparison with \<open>NaN\<close> is false. Integers are unbounded here; JavaScript is exact
  below \<open>2^53\<close>.
\<close>

datatype jsnum = NaN | Num int

fun js_sub :: "jsnum \<Rightarrow> jsnum \<Rightarrow> jsnum" where
  "js_sub (Num a) (Num b) = Num (a - b)"
| "js_sub _ _ = NaN"

fun js_lt :: "jsnum \<Rightarrow> jsnum \<Rightarrow> bool" where
  "js_lt (Num a) (Num b) = (a < b)"
| "js_lt _ _ = False"

fun js_gt :: "jsnum \<Rightarrow> jsnum \<Rightarrow> bool" where
  "js_gt (Num a) (Num b) = (a > b)"
| "js_gt _ _ = False"

fun js_le :: "jsnum \<Rightarrow> jsnum \<Rightarrow> bool" where
  "js_le (Num a) (Num b) = (a \<le> b)"
| "js_le _ _ = False"

fun js_ge :: "jsnum \<Rightarrow> jsnum \<Rightarrow> bool" where
  "js_ge (Num a) (Num b) = (a \<ge> b)"
| "js_ge _ _ = False"

fun js_seq :: "jsnum \<Rightarrow> jsnum \<Rightarrow> bool" where
  "js_seq (Num a) (Num b) = (a = b)"
| "js_seq _ _ = False"

text \<open>
  A field of a JSON request body is a string or is absent (\<open>undefined\<close>); the form in
  \<open>RegistrationForm.jsx\<close> sends every field as a string. Strings are lists of 8-bit
  code units.
\<close>

type_synonym jsstr = "string option"

definition truthy :: "jsstr \<Rightarrow> bool" where
  "truthy v = (case v of None \<Rightarrow> False | Some s \<Rightarrow> s \<noteq> [])"

definition isSpace :: "char \<Rightarrow> bool" where
  "isSpace c = (of_char c \<in> {9, 10, 11, 12, 13, 32, 160 :: nat})"

definition isDigit :: "char \<Rightarrow> bool" where
  "isDigit c = (48 \<le> (of_char c :: nat) \<and> (of_char c :: nat) \<le> 57)"

definition isHexDigit :: "char \<Rightarrow> bool" where
  "isHexDigit c =
     (isDigit c \<or> (65 \<le> (of_char c :: nat) \<and> (of_char c :: nat) \<le> 70)
       \<or> (97 \<le> (of_char c :: nat) \<and> (of_char c :: nat) \<le> 102))"

definition digitVal :: "char \<Rightarrow> int" where
  "digitVal c =
     (if isDigit c then int (of_char c) - 48
      else if 97 \<le> (of_char c :: nat) then int (of_char c) - 87
      else int (of_char c) - 55)"

definition digitsVal :: "int \<Rightarrow> string \<Rightarrow> int" where
  "digitsVal radix ds = foldl (\<lambda>acc c. radix * acc + digitVal c) 0 ds"

text \<open>\<open>String.prototype.trim\<close>: white space and line terminators go from both ends.\<close>

definition trim :: "string \<Rightarrow> string" where
  "trim s = rev (dropWhile isSpace (rev (dropWhile isSpace s)))"

definition isIntStr :: "string \<Rightarrow> bool" where
  \<comment> \<open>the regular expression \<open>/^[-+]?[0-9]+$/\<close>\<close>
  "isIntStr s =
     (case s of
        [] \<Rightarrow> False
      | c # r \<Rightarrow>
          if c = CHR ''-'' \<or> c = CHR ''+'' then r \<noteq> [] \<and> list_all isDigit r
          else list_all isDigit s)"

text \<open>
  \<open>ToNumber\<close> on a string or \<open>undefined\<close>. \<open>undefined\<close> is \<open>NaN\<close>; a string is
  trimmed, the empty string is \<open>0\<close>, and an optionally signed run of decimal digits is
  its value. Any other text is \<open>NaN\<close> here. For text that is no numeric literal, and for
  \<open>Infinity\<close>, the Date built from it is invalid in JavaScript too. Literals with a
  radix prefix, a fraction or an exponent denote numbers in JavaScript and are outside
  this integer model; they fail \<open>isIntStr\<close>, so a request that carries one is turned
  away by \<open>registrationValidation\<close> before \<open>calculateAge\<close> is called
  (\<open>validated_fields\<close> below). \<open>POST /api/validate-age\<close> makes no such check:
  there the model is exact whenever it yields an integer age, and its \<open>NaN\<close> for
  such a literal stands for a number it does not compute.
\<close>

definition ToNumber :: "jsstr \<Rightarrow> jsnum" where
  "ToNumber v =
     (case v of
        None \<Rightarrow> NaN
      | Some s \<Rightarrow>
          (let t = trim s in
           if t = [] then Num 0
           else if isIntStr t then
             (case t of
                c # r \<Rightarrow>
                  if c = CHR ''-'' then Num (- digitsVal 10 r)
                  else if c = CHR ''+'' then Num (digitsVal 10 r)
                  else Num (digitsVal 10 t)
              | [] \<Rightarrow> NaN)
           else NaN))"

text \<open>
  \<open>parseInt(string)\<close> with no radix: leading white space is skipped, a sign is read,
  a \<open>0x\<close> or \<open>0X\<close> prefix selects radix 16, and the longest run of digits is the
  value; no digit at all is \<open>NaN\<close>. \<open>parseInt(undefined)\<close> parses the text
  \<open>undefined\<close>, which is \<open>NaN\<close>.
\<close>

definition parseInt :: "jsstr \<Rightarrow> jsnum" where
  "parseInt v =
     (case v of
        None \<Rightarrow> NaN
      | Some s \<Rightarrow>
          (let s1 = dropWhile isSpace s;
               sign = (case s1 of c # _ \<Rightarrow> if c = CHR ''-'' then - 1 else 1 | [] \<Rightarrow> (1::int));
               s2 = (case s1 of
                       c # r \<Rightarrow> if c = CHR ''-'' \<or> c = CHR ''+'' then r else s1
                     | [] \<Rightarrow> s1);
               hex = (case s2 of
                        a # b # _ \<Rightarrow> a = CHR ''0'' \<and> (b = CHR ''x'' \<or> b = CHR ''X'')
                      | _ \<Rightarrow> False);
               ds = (if hex then takeWhile isHexDigit (drop 2 s2) else takeWhile isDigit s2)
           in if ds = [] then NaN
              else Num (sign * digitsVal (if hex then 16 else 10) ds)))"

section \<open>The Date object\<close>

text \<open>
  A Date is its time value, in milliseconds since the epoch, or is invalid. The
  functions below are the day and year arithmetic of ECMA-262 (section "Date Objects").
  The server's local time zone is taken to be UTC, so local time is the time value.
\<close>

datatype jsdate = InvalidDate | Date int

definition msPerDay :: int where
  "msPerDay = 86400000"

definition Day :: "int \<Rightarrow> int" where
  "Day t = t div msPerDay"

definition DaysInYear :: "int \<Rightarrow> int" where
  "DaysInYear y =
     (if y mod 4 \<noteq> 0 then 365
      else if y mod 100 \<noteq> 0 then 366
      else if y mod 400 \<noteq> 0 then 365
      else 366)"

definition DayFromYear :: "int \<Rightarrow> int" where
  "DayFromYear y =
     365 * (y - 1970) + (y - 1969) div 4 - (y - 1901) div 100 + (y - 1601) div 400"

text \<open>
  The year of a day number is the largest \<open>y\<close> with \<open>DayFromYear y \<le> d\<close>. It is
  computed from the mean year length of the 400-year cycle (146097 days), corrected by
  at most one year; \<open>YearFromDay_bounds\<close> below proves that this is that year.
\<close>

definition YearFromDay :: "int \<Rightarrow> int" where
  "YearFromDay d =
     (let y = 1970 + (400 * d) div 146097
      in if d < DayFromYear y then y - 1
         else if DayFromYear (y + 1) \<le> d then y + 1
         else y)"

definition YearFromTime :: "int \<Rightarrow> int" where
  "YearFromTime t = YearFromDay (Day t)"

definition InLeapYear :: "int \<Rightarrow> int" where
  "InLeapYear t = (if DaysInYear (YearFromTime t) = 366 then 1 else 0)"

definition DayWithinYear :: "int \<Rightarrow> int" where
  "DayWithinYear t = Day t - DayFromYear (YearFromTime t)"

definition MonthFromTime :: "int \<Rightarrow> int" where
  "MonthFromTime t =
     (let w = DayWithinYear t; l = InLeapYear t
      in if w < 31 then 0
         else if w < 59 + l then 1
         else if w < 90 + l then 2
         else if w < 120 + l then 3
         else if w < 151 + l then 4
         else if w < 181 + l then 5
         else if w < 212 + l then 6
         else if w < 243 + l then 7
         else if w < 273 + l then 8
         else if w < 304 + l then 9
         else if w < 334 + l then 10
         else 11)"

definition DateFromTime :: "int \<Rightarrow> int" where
  "DateFromTime t =
     (let w = DayWithinYear t; l = InLeapYear t; m = MonthFromTime t
      in if m = 0 then w + 1
         else if m = 1 then w - 30
         else if m = 2 then w - 58 - l
         else if m = 3 then w - 89 - l
         else if m = 4 then w - 119 - l
         else if m = 5 then w - 150 - l
         else if m = 6 then w - 180 - l
         else if m = 7 then w - 211 - l
         else if m = 8 then w - 242 - l
         else if m = 9 then w - 272 - l
         else if m = 10 then w - 303 - l
         else w - 333 - l)"

text \<open>
  \<open>MakeDay\<close>: the month is carried into the year, and the day of the month is added to
  the day number of the first of that month, so a day past the end of the month runs on
  into the next one.
\<close>

definition monthStart :: "int \<Rightarrow> int \<Rightarrow> int" where
  "monthStart y mn =
     (let l = (if DaysInYear y = 366 then 1 else 0)
      in if mn = 0 then 0
         else if mn = 1 then 31
         else if mn = 2 then 59 + l
         else if mn = 3 then 90 + l
         else if mn = 4 then 120 + l
         else if mn = 5 then 151 + l
         else if mn = 6 then 181 + l
         else if mn = 7 then 212 + l
         else if mn = 8 then 243 + l
         else if mn = 9 then 273 + l
         else if mn = 10 then 304 + l
         else 334 + l)"

definition MakeDay :: "int \<Rightarrow> int \<Rightarrow> int \<Rightarrow> int" where
  "MakeDay year month date =
     (let ym = year + month div 12;
          mn = month mod 12
      in DayFromYear ym + monthStart ym mn + date - 1)"

definition TimeClip :: "int \<Rightarrow> jsdate" where
  "TimeClip t = (if \<bar>t\<bar> > 8640000000000000 then InvalidDate else Date t)"

text \<open>\<open>new Date(year, monthIndex, day)\<close>: a year from 0 to 99 means 1900 + year.\<close>

fun newDate3 :: "jsnum \<Rightarrow> jsnum \<Rightarrow> jsnum \<Rightarrow> jsdate" where
  "newDate3 (Num y) (Num m) (Num dt) =
     (let yr = (if 0 \<le> y \<and> y \<le> 99 then 1900 + y else y)
      in TimeClip (MakeDay yr m dt * msPerDay))"
| "newDate3 _ _ _ = InvalidDate"

fun getFullYear :: "jsdate \<Rightarrow> jsnum" where
  "getFullYear (Date t) = Num (YearFromTime t)"
| "getFullYear InvalidDate = NaN"

fun getMonth :: "jsdate \<Rightarrow> jsnum" where
  "getMonth (Date t) = Num (MonthFromTime t)"
| "getMonth InvalidDate = NaN"

fun getDate :: "jsdate \<Rightarrow> jsnum" where
  "getDate (Date t) = Num (DateFromTime t)"
| "getDate InvalidDate = NaN"

section \<open>Utility functions of server.js\<close>

text \<open>
  \<open>calculateAge\<close> reads the clock through \<open>new Date()\<close>; the time value it reads is the
  first argument \<open>now\<close>.
\<close>

definition calculateAge :: "int \<Rightarrow> jsstr \<Rightarrow> jsstr \<Rightarrow> jsstr \<Rightarrow> jsnum" where
  "calculateAge now year month day =
     (let birthDate = newDate3 (ToNumber year) (js_sub (parseInt month) (Num 1)) (ToNumber day);
          today = Date now;
          age = js_sub (getFullYear today) (getFullYear birthDate);
          monthDiff = js_sub (getMonth today) (getMonth birthDate)
      in if js_lt monthDiff (Num 0)
            \<or> (js_seq monthDiff (Num 0) \<and> js_lt (getDate today) (getDate birthDate))
         then js_sub age (Num 1)
         else age)"

definition validateAge :: "jsnum \<Rightarrow> jsstr \<Rightarrow> string list" where
  "validateAge age gender =
     (let errors = [];
          errors = (if gender = Some ''Male'' \<and> js_lt age (Num 21)
                    then errors @ [''Men must be at least 21 years old'']
                    else errors);
          errors = (if gender = Some ''Female'' \<and> js_lt age (Num 18)
                    then errors @ [''Women must be at least 18 years old'']
                    else errors);
          errors = (if js_gt age (Num 40)
                    then errors @ [''Maximum age for both genders is 40 years. Please visit our other site for registration.'']
                    else errors)
      in errors)"

section \<open>Data model\<close>

text \<open>
  The request body of \<open>/api/register\<close> and \<open>/api/users/:id\<close>, which is also the shape
  of \<open>formData\<close> in the form. An absent \<open>dateOfBirth\<close> or \<open>timeOfBirth\<close> object is
  the object with every field absent.
\<close>

record dob =
  year :: jsstr
  month :: jsstr
  day :: jsstr

record tob =
  hour :: jsstr
  minute :: jsstr

record details =
  fullName :: jsstr
  dateOfBirth :: dob
  timeOfBirth :: tob
  birthPlace :: jsstr
  gender :: jsstr
  height :: jsstr
  weight :: jsstr
  astrological_sign :: jsstr

text \<open>
  A document of the \<open>User\<close> model: the submitted details, and the identifier
  (\<open>_id\<close>), the derived age, the creation time and the status.
\<close>

record user = details +
  uid :: nat
  age :: jsnum
  createdAt :: int
  status :: string

type_synonym store = "user list"

text \<open>A response is its HTTP status and its JSON body.\<close>

datatype payload =
    ErrorDetails string "string list"
  | ErrorMessage string string
  | ErrorOnly string
  | ErrorRequired string "string list"
  | UserMessage string user
  | DeletedMessage string nat jsstr
  | AgeReport jsnum bool "string list"

type_synonym response = "nat \<times> payload"

section \<open>Validation middleware\<close>

text \<open>
  The chains of \<open>registrationValidation\<close> (express-validator). A validator sees the
  field as text, the empty text when the field is absent; every validator of a chain
  runs, and each one that fails reports its message. A chain marked \<open>optional\<close> is
  skipped when the field is absent. The upper bound of the birth year is the year read
  from the clock when the server starts, the argument \<open>maxYear\<close>.
\<close>

definition fieldText :: "jsstr \<Rightarrow> string" where
  "fieldText v = (case v of None \<Rightarrow> [] | Some s \<Rightarrow> s)"

definition isInt :: "string \<Rightarrow> int \<Rightarrow> int \<Rightarrow> bool" where
  "isInt s lo hi =
     (isIntStr s \<and> js_ge (ToNumber (Some s)) (Num lo) \<and> js_le (ToNumber (Some s)) (Num hi))"

definition isLetter :: "char \<Rightarrow> bool" where
  "isLetter c =
     ((65 \<le> (of_char c :: nat) \<and> (of_char c :: nat) \<le> 90)
       \<or> (97 \<le> (of_char c :: nat) \<and> (of_char c :: nat) \<le> 122))"

definition lettersAndSpaces :: "string \<Rightarrow> bool" where
  \<comment> \<open>the regular expression \<open>/^[a-zA-Z\s]+$/\<close>\<close>
  "lettersAndSpaces s = (s \<noteq> [] \<and> list_all (\<lambda>c. isLetter c \<or> isSpace c) s)"

definition months :: "string list" where
  "months = [''01'', ''02'', ''03'', ''04'', ''05'', ''06'', ''07'', ''08'', ''09'', ''10'', ''11'', ''12'']"

definition check :: "bool \<Rightarrow> string \<Rightarrow> string list" where
  "check ok msg = (if ok then [] else [msg])"

definition optional :: "jsstr \<Rightarrow> string list \<Rightarrow> string list" where
  "optional v errs = (case v of None \<Rightarrow> [] | Some _ \<Rightarrow> errs)"

definition registrationValidation :: "int \<Rightarrow> details \<Rightarrow> string list" where
  "registrationValidation maxYear body =
     (let fn = fieldText (fullName body);
          y = fieldText (year (dateOfBirth body));
          m = fieldText (month (dateOfBirth body));
          d = fieldText (day (dateOfBirth body));
          g = fieldText (gender body);
          bp = fieldText (birthPlace body);
          h = fieldText (hour (timeOfBirth body));
          mi = fieldText (minute (timeOfBirth body))
      in check (fn \<noteq> []) ''Full name is required''
         @ check (2 \<le> length fn \<and> length fn \<le> 50) ''Full name must be between 2 and 50 characters''
         @ check (lettersAndSpaces fn) ''Full name can only contain letters and spaces''
         @ check (y \<noteq> []) ''Birth year is required''
         @ check (isInt y 1940 maxYear) ''Please enter a valid birth year''
         @ check (m \<noteq> []) ''Birth month is required''
         @ check (m \<in> set months) ''Please select a valid month''
         @ check (d \<noteq> []) ''Birth day is required''
         @ check (isInt d 1 31) ''Please enter a valid day''
         @ check (g \<noteq> []) ''Gender is required''
         @ check (g \<in> set [''Male'', ''Female'']) ''Gender must be Male or Female''
         @ optional (birthPlace body)
             (check (length bp \<le> 100) ''Birth place must be less than 100 characters'')
         @ optional (hour (timeOfBirth body))
             (check (isInt h 0 23) ''Hour must be between 0 and 23'')
         @ optional (minute (timeOfBirth body))
             (check (isInt mi 0 59) ''Minute must be between 0 and 59''))"

section \<open>The User model\<close>

text \<open>
  The store is the collection of documents, oldest first. The storage engine is taken
  to be reachable: the handlers' last resort, status 500 on a failure of the database
  itself, is not part of this model.

  \<open>schemaErrors\<close> are the paths of a document that fail the schema's validators
  (\<open>required\<close>, and \<open>enum\<close> for the gender): they make \<open>save\<close>, and
  \<open>findByIdAndUpdate\<close> with \<open>runValidators\<close>, throw a \<open>ValidationError\<close>. The
  handlers send back one message per failing path; the model names the path.
\<close>

definition schemaErrors :: "details \<Rightarrow> string list" where
  "schemaErrors d =
     check (truthy (fullName d)) ''fullName''
     @ check (truthy (year (dateOfBirth d))) ''dateOfBirth.year''
     @ check (truthy (month (dateOfBirth d))) ''dateOfBirth.month''
     @ check (truthy (day (dateOfBirth d))) ''dateOfBirth.day''
     @ check (gender d = Some ''Male'' \<or> gender d = Some ''Female'') ''gender''"

definition newId :: "store \<Rightarrow> nat" where
  \<comment> \<open>a fresh identifier, as a new ObjectId is\<close>
  "newId s = Suc (fold max (map uid s) 0)"

definition findOne :: "(user \<Rightarrow> bool) \<Rightarrow> store \<Rightarrow> user option" where
  "findOne q s = find q s"

definition findById :: "nat \<Rightarrow> store \<Rightarrow> user option" where
  "findById i s = findOne (\<lambda>u. uid u = i) s"

fun replaceFirst :: "nat \<Rightarrow> user \<Rightarrow> store \<Rightarrow> store" where
  "replaceFirst i v [] = []"
| "replaceFirst i v (u # us) = (if uid u = i then v # us else u # replaceFirst i v us)"

fun removeFirst :: "nat \<Rightarrow> store \<Rightarrow> store" where
  "removeFirst i [] = []"
| "removeFirst i (u # us) = (if uid u = i then us else u # removeFirst i us)"

definition trimmed :: "jsstr \<Rightarrow> jsstr" where
  \<comment> \<open>\<open>v?.trim()\<close>\<close>
  "trimmed v = map_option trim v"

section \<open>Request handlers\<close>

text \<open>
  Each handler takes the store and returns the response and the store after the
  request; \<open>now\<close> is the time value of the clock during the request. The \<open>:id\<close> of a
  route is an identifier, or \<open>None\<close> when its text is no ObjectId (Mongoose then throws a
  \<open>CastError\<close>).
\<close>

text \<open>
  \<open>POST /api/register\<close>. The response on success lists the identifier, name, date of
  birth, gender, age, creation time and status of the saved document.
\<close>

definition register :: "int \<Rightarrow> int \<Rightarrow> store \<Rightarrow> details \<Rightarrow> response \<times> store" where
  "register maxYear now s body =
     (let errors = registrationValidation maxYear body in
      if errors \<noteq> [] then ((400, ErrorDetails ''Validation failed'' errors), s)
      else
        let b = dateOfBirth body;
            a = calculateAge now (year b) (month b) (day b);
            ageValidationErrors = validateAge a (gender body)
        in if length ageValidationErrors > 0
           then ((400, ErrorDetails ''Age validation failed'' ageValidationErrors), s)
           else
             let existingUser =
                   findOne (\<lambda>u. fullName u = trimmed (fullName body)
                                \<and> year (dateOfBirth u) = year b
                                \<and> month (dateOfBirth u) = month b
                                \<and> day (dateOfBirth u) = day b) s
             in if existingUser \<noteq> None
                then ((409, ErrorMessage ''User already exists''
                              ''A user with the same name and date of birth already exists''), s)
                else
                  let newUser =
                        \<lparr> fullName = trimmed (fullName body),
                          dateOfBirth = b,
                          timeOfBirth = timeOfBirth body,
                          birthPlace = trimmed (birthPlace body),
                          gender = gender body,
                          height = height body,
                          weight = weight body,
                          astrological_sign = astrological_sign body,
                          uid = newId s,
                          age = a,
                          createdAt = now,
                          status = ''active'' \<rparr>
                  in if schemaErrors (details.truncate newUser) \<noteq> []
                     then ((400, ErrorDetails ''Database validation failed''
                                   (schemaErrors (details.truncate newUser))), s)
                     else ((201, UserMessage ''User registered successfully'' newUser),
                           s @ [newUser]))"

text \<open>
  \<open>PUT /api/users/:id\<close>. \<open>findByIdAndUpdate\<close> casts the identifier, runs the
  validators on the update, and then replaces the fields of the document it finds.
\<close>

definition update :: "int \<Rightarrow> int \<Rightarrow> store \<Rightarrow> nat option \<Rightarrow> details \<Rightarrow> response \<times> store" where
  "update maxYear now s ident body =
     (let errors = registrationValidation maxYear body in
      if errors \<noteq> [] then ((400, ErrorDetails ''Validation failed'' errors), s)
      else
        let b = dateOfBirth body;
            a = calculateAge now (year b) (month b) (day b);
            ageValidationErrors = validateAge a (gender body)
        in if length ageValidationErrors > 0
           then ((400, ErrorDetails ''Age validation failed'' ageValidationErrors), s)
           else
             let changes =
                   \<lparr> fullName = trimmed (fullName body),
                     dateOfBirth = b,
                     timeOfBirth = timeOfBirth body,
                     birthPlace = trimmed (birthPlace body),
                     gender = gender body,
                     height = height body,
                     weight = weight body,
                     astrological_sign = astrological_sign body \<rparr>
             in case ident of
                  None \<Rightarrow> ((400, ErrorOnly ''Invalid user ID format''), s)
                | Some i \<Rightarrow>
                    if schemaErrors changes \<noteq> []
                    then ((400, ErrorDetails ''Database validation failed'' (schemaErrors changes)), s)
                    else
                      (case findById i s of
                         None \<Rightarrow> ((404, ErrorOnly ''User not found''), s)
                       | Some u \<Rightarrow>
                           let updatedUser =
                                 details.extend changes
                                   \<lparr> uid = uid u, age = a, createdAt = createdAt u, status = status u \<rparr>
                           in ((200, UserMessage ''User updated successfully'' updatedUser),
                               replaceFirst i updatedUser s)))"

text \<open>\<open>DELETE /api/users/:id\<close>.\<close>

definition delete :: "store \<Rightarrow> nat option \<Rightarrow> response \<times> store" where
  "delete s ident =
     (case ident of
        None \<Rightarrow> ((400, ErrorOnly ''Invalid user ID format''), s)
      | Some i \<Rightarrow>
          (case findById i s of
             None \<Rightarrow> ((404, ErrorOnly ''User not found''), s)
           | Some deletedUser \<Rightarrow>
               ((200, DeletedMessage ''User deleted successfully'' (uid deletedUser) (fullName deletedUser)),
                removeFirst i s)))"

text \<open>
  \<open>POST /api/validate-age\<close>: the body is the three fields of a date of birth and a
  gender. Nothing is stored. (The \<open>ageRequirements\<close> of the response are constant text.)
\<close>

definition validate_age :: "int \<Rightarrow> dob \<Rightarrow> jsstr \<Rightarrow> response" where
  "validate_age now b g =
     (if \<not> truthy (year b) \<or> \<not> truthy (month b) \<or> \<not> truthy (day b) \<or> \<not> truthy g
      then (400, ErrorRequired ''Missing required fields'' [''year'', ''month'', ''day'', ''gender''])
      else
        let a = calculateAge now (year b) (month b) (day b);
            validationErrors = validateAge a g
        in (200, AgeReport a (length validationErrors = 0) validationErrors))"

text \<open>
  The requests that change the store, each with the clock of its moment and the year
  bound of the server that handles it, and the store after a sequence of them.
\<close>

datatype request =
    PostRegister int int details
  | PutUser int int "nat option" details
  | DeleteUser "nat option"

fun handle :: "store \<Rightarrow> request \<Rightarrow> response \<times> store" where
  "handle s (PostRegister maxYear now body) = register maxYear now s body"
| "handle s (PutUser maxYear now ident body) = update maxYear now s ident body"
| "handle s (DeleteUser ident) = delete s ident"

fun run :: "store \<Rightarrow> request list \<Rightarrow> store" where
  "run s [] = s"
| "run s (r # rs) = run (snd (handle s r)) rs"

section \<open>The form's age check (RegistrationForm.jsx)\<close>

text \<open>
  The effect that runs when the date of birth or the gender of \<open>formData\<close> changes. It
  sets the state \<open>ageValidation\<close>, a message that is empty when the form may be
  submitted; with an incomplete date of birth it leaves the state as it was. \<open>now\<close> is
  the browser's clock.
\<close>

definition ageValidationEffect :: "int \<Rightarrow> details \<Rightarrow> string \<Rightarrow> string" where
  "ageValidationEffect now formData ageValidation =
     (let b = dateOfBirth formData in
      if truthy (year b) \<and> truthy (month b) \<and> truthy (day b) then
        let birthDate = newDate3 (ToNumber (year b)) (js_sub (parseInt (month b)) (Num 1)) (ToNumber (day b));
            today = Date now;
            a = js_sub (getFullYear today) (getFullYear birthDate);
            monthDiff = js_sub (getMonth today) (getMonth birthDate);
            a = (if js_lt monthDiff (Num 0)
                    \<or> (js_seq monthDiff (Num 0) \<and> js_lt (getDate today) (getDate birthDate))
                 then js_sub a (Num 1)
                 else a)
        in if gender formData = Some ''Male'' \<and> js_lt a (Num 21)
           then ''Men must be at least 21 years old''
           else if gender formData = Some ''Female'' \<and> js_lt a (Num 18)
           then ''Women must be at least 18 years old''
           else if js_gt a (Num 40)
           then ''Maximum age for both genders is 40 years. If above 40, please visit our other site.''
           else []
      else ageValidation)"

section \<open>Calendar dates\<close>

text \<open>
  The length of a month (by its index, 0 for January), the dates that exist in the
  calendar (month numbered from 1, as the form sends it), and the order of two
  (month, day) pairs within a year.
\<close>

definition daysInMonth :: "int \<Rightarrow> int \<Rightarrow> int" where
  "daysInMonth y mn =
     (if mn = 1 then (if DaysInYear y = 366 then 29 else 28)
      else if mn = 3 \<or> mn = 5 \<or> mn = 8 \<or> mn = 10 then 30
      else 31)"

definition calendarDate :: "int \<Rightarrow> int \<Rightarrow> int \<Rightarrow> bool" where
  "calendarDate y m d = (1 \<le> m \<and> m \<le> 12 \<and> 1 \<le> d \<and> d \<le> daysInMonth y (m - 1))"

definition precedes :: "int \<times> int \<Rightarrow> int \<times> int \<Rightarrow> bool" where
  "precedes a b = (fst a < fst b \<or> (fst a = fst b \<and> snd a < snd b))"

section \<open>Stored registrants and example requests\<close>

text \<open>
  A stored registrant is eligible when the rule has no complaint about its stored age
  and its stored gender. \<open>submission\<close> is a request body with the required fields
  and no optional one, used for the concrete cases below.
\<close>

definition eligible :: "user \<Rightarrow> bool" where
  "eligible u = (validateAge (age u) (gender u) = [])"

definition submission :: "string \<Rightarrow> string \<Rightarrow> string \<Rightarrow> string \<Rightarrow> string \<Rightarrow> details" where
  "submission n y m d g =
     \<lparr> fullName = Some n,
       dateOfBirth = \<lparr> year = Some y, month = Some m, day = Some d \<rparr>,
       timeOfBirth = \<lparr> hour = None, minute = None \<rparr>,
       birthPlace = None,
       gender = Some g,
       height = None,
       weight = None,
       astrological_sign = None \<rparr>"

section \<open>Properties of the Date arithmetic\<close>

subsection \<open>Day numbers and years\<close>

lemma div_succ:
  assumes "0 < (n::int)"
  shows "(x + 1) div n = x div n + (if (x + 1) mod n = 0 then 1 else 0)"
proof -
  define q where "q = x div n"
  define r where "r = x mod n"
  have x: "x = n * q + r" by (simp add: q_def r_def)
  have r: "0 \<le> r" "r < n" using assms by (simp_all add: r_def)
  show ?thesis
  proof (cases "r + 1 = n")
    case True
    have "x + 1 = n * (q + 1) + 0" using x True by (simp add: algebra_simps)
    then have "(x + 1) div n = q + 1" "(x + 1) mod n = 0"
      using assms by (metis int_div_pos_eq order_refl, metis int_mod_pos_eq order_refl)
    then show ?thesis by (simp add: q_def)
  next
    case False
    have "x + 1 = n * q + (r + 1)" using x by simp
    moreover have "0 \<le> r + 1" "r + 1 < n" using r False by simp_all
    ultimately have "(x + 1) div n = q" "(x + 1) mod n = r + 1"
      by (metis int_div_pos_eq, metis int_mod_pos_eq)
    then show ?thesis using r by (simp add: q_def)
  qed
qed

lemma shift_mod: "((y::int) - n * k) mod n = y mod n"
  by (metis add_diff_cancel_right' mod_mult_self2 diff_add_cancel)

lemma mod_400_100: "(y::int) mod 400 = 0 \<Longrightarrow> y mod 100 = 0"
proof -
  assume "y mod 400 = 0"
  then have "400 dvd y" by (simp add: dvd_eq_mod_eq_0)
  moreover have "(100::int) dvd 400" by simp
  ultimately have "100 dvd y" by (rule dvd_trans [rotated])
  then show ?thesis by (simp add: dvd_eq_mod_eq_0)
qed

lemma mod_100_4: "(y::int) mod 100 = 0 \<Longrightarrow> y mod 4 = 0"
proof -
  assume "y mod 100 = 0"
  then have "100 dvd y" by (simp add: dvd_eq_mod_eq_0)
  moreover have "(4::int) dvd 100" by simp
  ultimately have "4 dvd y" by (rule dvd_trans [rotated])
  then show ?thesis by (simp add: dvd_eq_mod_eq_0)
qed

lemma leap_4: "((y::int) + 1 - 1969) div 4 = (y - 1969) div 4 + (if y mod 4 = 0 then 1 else 0)"
proof -
  have "y - 1969 + 1 = y - 4 * 492" by simp
  then show ?thesis
    using div_succ [of 4 "y - 1969"] shift_mod [of y 4 492] by (simp add: algebra_simps)
qed

lemma leap_100: "((y::int) + 1 - 1901) div 100 = (y - 1901) div 100 + (if y mod 100 = 0 then 1 else 0)"
proof -
  have "y - 1901 + 1 = y - 100 * 19" by simp
  then show ?thesis
    using div_succ [of 100 "y - 1901"] shift_mod [of y 100 19] by (simp add: algebra_simps)
qed

lemma leap_400: "((y::int) + 1 - 1601) div 400 = (y - 1601) div 400 + (if y mod 400 = 0 then 1 else 0)"
proof -
  have "y - 1601 + 1 = y - 400 * 4" by simp
  then show ?thesis
    using div_succ [of 400 "y - 1601"] shift_mod [of y 400 4] by (simp add: algebra_simps)
qed

lemma DayFromYear_step: "DayFromYear (y + 1) = DayFromYear y + DaysInYear y"
proof -
  have "DayFromYear (y + 1) =
      365 * (y - 1970) + 365 + (y + 1 - 1969) div 4 - (y + 1 - 1901) div 100 + (y + 1 - 1601) div 400"
    unfolding DayFromYear_def by (simp add: algebra_simps)
  also have "\<dots> = DayFromYear y + ((if y mod 4 = 0 then 1 else 0) - (if y mod 100 = 0 then 1 else 0)
      + (if y mod 400 = 0 then 1 else 0)) + 365"
    unfolding leap_4 leap_100 leap_400 DayFromYear_def by linarith
  also have "\<dots> = DayFromYear y + DaysInYear y"
    using mod_400_100 [of y] mod_100_4 [of y] unfolding DaysInYear_def by auto
  finally show ?thesis .
qed

lemma div_lo: "0 < (n::int) \<Longrightarrow> n * (x div n) \<le> x"
  using mult_div_mod_eq [of n x] pos_mod_sign [of n x] by linarith

lemma div_hi: "0 < (n::int) \<Longrightarrow> x < n * (x div n) + n"
  using mult_div_mod_eq [of n x] pos_mod_bound [of n x] by linarith

lemma lin_upper:
  "4 * A \<le> y - 1969 \<Longrightarrow> y - 1901 < 100 * B + 100 \<Longrightarrow> 400 * C \<le> y - 1601 \<Longrightarrow>
   400 * (365 * (y - 1970) + A - B + C) \<le> 146097 * (y - 1970) + (593::int)"
  by (simp add: algebra_simps)

lemma lin_lower:
  "y - 1969 < 4 * A + 4 \<Longrightarrow> 100 * B \<le> y - 1901 \<Longrightarrow> y - 1601 < 400 * C + 400 \<Longrightarrow>
   146097 * (y - 1970) - (607::int) \<le> 400 * (365 * (y - 1970) + A - B + C)"
  by (simp add: algebra_simps)

lemma DayFromYear_upper: "400 * DayFromYear y \<le> 146097 * (y - 1970) + 593"
  unfolding DayFromYear_def
  by (rule lin_upper) (rule div_lo div_hi, simp)+

lemma DayFromYear_lower: "146097 * (y - 1970) - 607 \<le> 400 * DayFromYear y"
  unfolding DayFromYear_def
  by (rule lin_lower) (rule div_lo div_hi, simp)+

lemma YearFromDay_bounds:
  "DayFromYear (YearFromDay d) \<le> d \<and> d < DayFromYear (YearFromDay d + 1)"
proof -
  define y where "y = 1970 + (400 * d) div 146097"
  have lo: "146097 * (y - 1970) \<le> 400 * d"
    using div_lo [of 146097 "400 * d"] by (simp add: y_def)
  have hi: "400 * d < 146097 * (y - 1970) + 146097"
    using div_hi [of 146097 "400 * d"] by (simp add: y_def)
  have "400 * DayFromYear (y - 1) \<le> 146097 * (y - 1970) - 145504"
    using DayFromYear_upper [of "y - 1"] by (simp add: algebra_simps)
  then have p: "DayFromYear (y - 1) \<le> d"
    using lo by linarith
  have "146097 * (y - 1970) + 291587 \<le> 400 * DayFromYear (y + 1 + 1)"
    using DayFromYear_lower [of "y + 1 + 1"] by (simp add: algebra_simps)
  then have n: "d < DayFromYear (y + 1 + 1)"
    using hi by linarith
  have yfd: "YearFromDay d = (if d < DayFromYear y then y - 1
         else if DayFromYear (y + 1) \<le> d then y + 1 else y)"
    by (simp add: YearFromDay_def y_def Let_def)
  show ?thesis
    using p n by (simp add: yfd)
qed

lemma DaysInYear_pos: "0 < DaysInYear y"
  by (simp add: DaysInYear_def)

lemma DayFromYear_mono: "a \<le> b \<Longrightarrow> DayFromYear a \<le> DayFromYear b"
proof -
  assume "a \<le> b"
  then have "DayFromYear a \<le> DayFromYear (a + int (nat (b - a)))"
  proof (induction "nat (b - a)" arbitrary: b)
    case 0
    then show ?case by simp
  next
    case (Suc k)
    then have k: "k = nat ((b - 1) - a)" and le: "a \<le> b - 1" by linarith+
    have "DayFromYear a \<le> DayFromYear (a + int (nat (b - 1 - a)))"
      using Suc.hyps(1) [OF k le] .
    also have "a + int (nat (b - 1 - a)) = b - 1" using le by simp
    also have "DayFromYear (b - 1) \<le> DayFromYear (b - 1 + 1)"
      using DayFromYear_step [of "b - 1"] DaysInYear_pos [of "b - 1"] by linarith
    finally show ?case using Suc.prems by simp
  qed
  then show ?thesis using \<open>a \<le> b\<close> by simp
qed

lemma YearFromDay_unique:
  assumes "DayFromYear y \<le> d" "d < DayFromYear (y + 1)"
  shows "YearFromDay d = y"
proof -
  let ?z = "YearFromDay d"
  have z: "DayFromYear ?z \<le> d" "d < DayFromYear (?z + 1)"
    using YearFromDay_bounds [of d] by simp_all
  have "\<not> ?z < y"
  proof
    assume "?z < y"
    then have "DayFromYear (?z + 1) \<le> DayFromYear y" by (intro DayFromYear_mono) simp
    then show False using z assms by linarith
  qed
  moreover have "\<not> y < ?z"
  proof
    assume "y < ?z"
    then have "DayFromYear (y + 1) \<le> DayFromYear ?z" by (intro DayFromYear_mono) simp
    then show False using z assms by linarith
  qed
  ultimately show ?thesis by linarith
qed

subsection \<open>A calendar date is read back as it was given\<close>

lemma Day_of_days: "Day (k * msPerDay) = k"
  by (simp add: Day_def msPerDay_def)

lemma month_cases:
  assumes "0 \<le> (mn::int)" "mn \<le> 11"
  obtains "mn = 0" | "mn = 1" | "mn = 2" | "mn = 3" | "mn = 4" | "mn = 5"
    | "mn = 6" | "mn = 7" | "mn = 8" | "mn = 9" | "mn = 10" | "mn = 11"
proof -
  have "mn = 0 \<or> mn = 1 \<or> mn = 2 \<or> mn = 3 \<or> mn = 4 \<or> mn = 5
    \<or> mn = 6 \<or> mn = 7 \<or> mn = 8 \<or> mn = 9 \<or> mn = 10 \<or> mn = 11"
    using assms by presburger
  then show thesis using that by blast
qed

lemma monthStart_range:
  assumes "0 \<le> mn" "mn \<le> 11" "1 \<le> dt" "dt \<le> daysInMonth y mn"
  shows "0 \<le> monthStart y mn + dt - 1 \<and> monthStart y mn + dt - 1 < DaysInYear y"
  using assms(1,2)
proof (cases rule: month_cases)
qed (use assms(3,4) in \<open>auto simp: monthStart_def daysInMonth_def DaysInYear_def Let_def split: if_splits\<close>)

lemma read_back:
  assumes "0 \<le> mn" "mn \<le> 11" "1 \<le> dt" "dt \<le> daysInMonth y mn"
  defines "t \<equiv> MakeDay y mn dt * msPerDay"
  shows "YearFromTime t = y" "MonthFromTime t = mn" "DateFromTime t = dt"
proof -
  define w where "w = monthStart y mn + dt - 1"
  have mk: "MakeDay y mn dt = DayFromYear y + w"
    using assms(1,2) by (simp add: MakeDay_def w_def Let_def)
  have w: "0 \<le> w" "w < DaysInYear y"
    using monthStart_range [OF assms(1-4)] by (simp_all add: w_def)
  have d: "Day t = DayFromYear y + w"
    by (simp add: t_def Day_of_days mk)
  show yr: "YearFromTime t = y"
    unfolding YearFromTime_def d
    by (rule YearFromDay_unique) (use w DayFromYear_step [of y] in simp_all)
  have dw: "DayWithinYear t = w"
    by (simp add: DayWithinYear_def yr d)
  have lp: "InLeapYear t = (if DaysInYear y = 366 then 1 else 0)"
    by (simp add: InLeapYear_def yr)
  have "MonthFromTime t = mn \<and> DateFromTime t = dt"
    using assms(1,2)
  proof (cases rule: month_cases)
  qed (use assms(3,4) in \<open>auto simp: MonthFromTime_def DateFromTime_def dw lp w_def monthStart_def
         daysInMonth_def Let_def split: if_splits\<close>)
  then show "MonthFromTime t = mn" "DateFromTime t = dt" by simp_all
qed

section \<open>What the validation middleware lets through\<close>

lemma check_Nil: "check ok msg = [] \<longleftrightarrow> ok"
  by (simp add: check_def)

lemma validated_fields:
  assumes "registrationValidation maxYear body = []"
  shows "isIntStr (fieldText (year (dateOfBirth body)))"
    and "fieldText (month (dateOfBirth body)) \<in> set months"
    and "isIntStr (fieldText (day (dateOfBirth body)))"
    and "gender body = Some ''Male'' \<or> gender body = Some ''Female''"
  using assms
  by (auto simp: registrationValidation_def Let_def check_Nil isInt_def fieldText_def
      split: option.splits)

section \<open>The eligibility rule\<close>

lemma validateAge_Male:
  "validateAge (Num a) (Some ''Male'') =
     (if a < 21 then [''Men must be at least 21 years old'']
      else if a > 40 then [''Maximum age for both genders is 40 years. Please visit our other site for registration.'']
      else [])"
  by (simp add: validateAge_def)

lemma validateAge_Female:
  "validateAge (Num a) (Some ''Female'') =
     (if a < 18 then [''Women must be at least 18 years old'']
      else if a > 40 then [''Maximum age for both genders is 40 years. Please visit our other site for registration.'']
      else [])"
  by (simp add: validateAge_def)

lemma validateAge_other:
  "g \<noteq> Some ''Male'' \<Longrightarrow> g \<noteq> Some ''Female'' \<Longrightarrow>
   validateAge n g =
     (if js_gt n (Num 40) then [''Maximum age for both genders is 40 years. Please visit our other site for registration.'']
      else [])"
  by (simp add: validateAge_def)

lemma validateAge_NaN: "validateAge NaN g = []"
  by (simp add: validateAge_def)

text \<open>
  C3, as the code has it. For every age above 40 and every gender value, the list that
  \<open>validateAge\<close> returns contains the maximum-age message of \<open>server.js\<close>, which is the
  sentence "Maximum age for both genders is 40 years." followed by "Please visit our
  other site for registration."
\<close>

theorem max_age_rule:
  "a > 40 \<Longrightarrow>
   ''Maximum age for both genders is 40 years. Please visit our other site for registration.''
     \<in> set (validateAge (Num a) g)"
  by (simp add: validateAge_def)

theorem max_age_rule_witness:
  "''Maximum age for both genders is 40 years. Please visit our other site for registration.''
     \<in> set (validateAge (Num 41) (Some ''Female''))"
  using max_age_rule [of 41 "Some ''Female''"] by simp

text \<open>
  C3, as the specification words it: at age 41 the list does not contain the message
  "Maximum age for both genders is 40 years"; the message of the code is longer.
\<close>

theorem max_age_short_message_counterexample:
  "''Maximum age for both genders is 40 years'' \<notin> set (validateAge (Num 41) (Some ''Male''))"
  by (simp add: validateAge_def)

text \<open>
  C5. For a man younger than 21 the list contains "Men must be at least 21 years old",
  and for a woman younger than 18 it contains "Women must be at least 18 years old".
\<close>

theorem min_age_rules:
  "(a < 21 \<longrightarrow> ''Men must be at least 21 years old'' \<in> set (validateAge (Num a) (Some ''Male'')))
   \<and> (a < 18 \<longrightarrow> ''Women must be at least 18 years old'' \<in> set (validateAge (Num a) (Some ''Female'')))"
  by (simp add: validateAge_def)

theorem min_age_rules_witness:
  "''Men must be at least 21 years old'' \<in> set (validateAge (Num 20) (Some ''Male''))
   \<and> ''Women must be at least 18 years old'' \<in> set (validateAge (Num 17) (Some ''Female''))"
  using min_age_rules [of 20] min_age_rules [of 17] by simp

text \<open>
  C6. A man aged 21 to 40 and a woman aged 18 to 40 get the empty list: no violation.
\<close>

theorem eligible_range_passes:
  "(21 \<le> a \<and> a \<le> 40 \<longrightarrow> validateAge (Num a) (Some ''Male'') = [])
   \<and> (18 \<le> a \<and> a \<le> 40 \<longrightarrow> validateAge (Num a) (Some ''Female'') = [])"
  by (simp add: validateAge_def)

theorem eligible_range_passes_witness:
  "validateAge (Num 21) (Some ''Male'') = [] \<and> validateAge (Num 40) (Some ''Male'') = []
   \<and> validateAge (Num 18) (Some ''Female'') = [] \<and> validateAge (Num 40) (Some ''Female'') = []"
  using eligible_range_passes [of 21] eligible_range_passes [of 40] eligible_range_passes [of 18]
  by simp

text \<open>
  C9. For every age (an integer, or \<open>NaN\<close>) and every gender value, \<open>validateAge\<close>
  returns at most one message: no two of the three conditions of the rule hold together.
\<close>

theorem at_most_one_violation:
  "length (validateAge n g) \<le> 1
   \<and> \<not> ((g = Some ''Male'' \<and> js_lt n (Num 21)) \<and> (g = Some ''Female'' \<and> js_lt n (Num 18)))
   \<and> \<not> ((g = Some ''Male'' \<and> js_lt n (Num 21)) \<and> js_gt n (Num 40))
   \<and> \<not> ((g = Some ''Female'' \<and> js_lt n (Num 18)) \<and> js_gt n (Num 40))"
  by (cases n) (auto simp: validateAge_def)

theorem at_most_one_violation_witness:
  "length (validateAge (Num 45) (Some ''Male'')) \<le> 1
   \<and> length (validateAge (Num 3) (Some ''Female'')) \<le> 1"
  using at_most_one_violation [of "Num 45" "Some ''Male''"]
    at_most_one_violation [of "Num 3" "Some ''Female''"]
  by simp

section \<open>The age on a reference date\<close>

lemma calculateAge_Date:
  "newDate3 (ToNumber ys) (js_sub (parseInt ms) (Num 1)) (ToNumber ds) = Date t \<Longrightarrow>
   calculateAge now ys ms ds =
     Num (YearFromTime now - YearFromTime t
          - (if precedes (MonthFromTime now, DateFromTime now) (MonthFromTime t, DateFromTime t)
             then 1 else 0))"
  by (auto simp: calculateAge_def precedes_def Let_def)

lemma calculateAge_Invalid:
  "newDate3 (ToNumber ys) (js_sub (parseInt ms) (Num 1)) (ToNumber ds) = InvalidDate \<Longrightarrow>
   calculateAge now ys ms ds = NaN"
  by (simp add: calculateAge_def Let_def)

lemma MakeDay_in_range:
  assumes "100 \<le> y" "y \<le> 275000" "0 \<le> mn" "mn \<le> 11" "1 \<le> dt" "dt \<le> daysInMonth y mn"
  shows "TimeClip (MakeDay y mn dt * msPerDay) = Date (MakeDay y mn dt * msPerDay)"
proof -
  define w where "w = monthStart y mn + dt - 1"
  have mk: "MakeDay y mn dt = DayFromYear y + w"
    using assms(3,4) by (simp add: MakeDay_def w_def Let_def)
  have w: "0 \<le> w" "w < DaysInYear y"
    using monthStart_range [OF assms(3-6)] by (simp_all add: w_def)
  have w366: "w < 366" using w(2) by (simp add: DaysInYear_def split: if_splits)
  have "146097 * (y - 1970) \<le> 146097 * (275000 - 1970)"
    using assms(2) by simp
  then have "400 * DayFromYear y \<le> 146097 * (275000 - 1970) + 593"
    using DayFromYear_upper [of y] by linarith
  then have hi: "DayFromYear y \<le> 99722161" by simp
  have "146097 * (100 - 1970) \<le> 146097 * (y - 1970)"
    using assms(1) by simp
  then have "146097 * (100 - 1970) - 607 \<le> 400 * DayFromYear y"
    using DayFromYear_lower [of y] by linarith
  then have lo: "- 683005 \<le> DayFromYear y" by simp
  have "\<bar>MakeDay y mn dt\<bar> \<le> 100000000"
    using hi lo w w366 by (simp add: mk)
  then have "\<bar>MakeDay y mn dt * msPerDay\<bar> \<le> 8640000000000000"
    by (simp add: msPerDay_def abs_mult)
  then show ?thesis by (simp add: TimeClip_def)
qed

lemma newDate3_calendar:
  assumes "100 \<le> y" "y \<le> 275000" "calendarDate y m d"
  shows "newDate3 (Num y) (js_sub (Num m) (Num 1)) (Num d) = Date (MakeDay y (m - 1) d * msPerDay)"
proof -
  have r: "0 \<le> m - 1" "m - 1 \<le> 11" "1 \<le> d" "d \<le> daysInMonth y (m - 1)"
    using assms(3) by (simp_all add: calendarDate_def)
  have "(if 0 \<le> y \<and> y \<le> 99 then 1900 + y else y) = y" using assms(1) by simp
  then show ?thesis
    using MakeDay_in_range [OF assms(1,2) r] by (simp add: Let_def)
qed

text \<open>
  C4, as the code has it. \<open>calculateAge\<close> is the difference of the years of the clock
  and of the Date built from the birth fields, less one exactly when the (month, day) of
  the clock precedes the (month, day) of that Date; an invalid Date gives \<open>NaN\<close>. For a
  birth date that exists in the calendar, with a year from 100 to 275000, the Date has
  the fields that were given, so the comparison is with the birth (month, day) itself.
  A day past the end of its month is first carried into the next month. Born on
  2000-06-15, the age is 23 on 2024-06-14 and 24 on 2024-06-15.
\<close>

theorem anniversary_age:
  "(calculateAge now ys ms ds =
      (case newDate3 (ToNumber ys) (js_sub (parseInt ms) (Num 1)) (ToNumber ds) of
         InvalidDate \<Rightarrow> NaN
       | Date t \<Rightarrow>
           Num (YearFromTime now - YearFromTime t
                - (if precedes (MonthFromTime now, DateFromTime now) (MonthFromTime t, DateFromTime t)
                   then 1 else 0))))
   \<and> (ToNumber ys = Num y \<and> parseInt ms = Num m \<and> ToNumber ds = Num d
        \<and> 100 \<le> y \<and> y \<le> 275000 \<and> calendarDate y m d \<longrightarrow>
      calculateAge now ys ms ds =
        Num (YearFromTime now - y
             - (if precedes (MonthFromTime now + 1, DateFromTime now) (m, d) then 1 else 0)))
   \<and> calculateAge (MakeDay 2024 5 14 * msPerDay) (Some ''2000'') (Some ''06'') (Some ''15'') = Num 23
   \<and> calculateAge (MakeDay 2024 5 15 * msPerDay) (Some ''2000'') (Some ''06'') (Some ''15'') = Num 24"
proof (intro conjI impI)
  show "calculateAge now ys ms ds =
      (case newDate3 (ToNumber ys) (js_sub (parseInt ms) (Num 1)) (ToNumber ds) of
         InvalidDate \<Rightarrow> NaN
       | Date t \<Rightarrow>
           Num (YearFromTime now - YearFromTime t
                - (if precedes (MonthFromTime now, DateFromTime now) (MonthFromTime t, DateFromTime t)
                   then 1 else 0)))"
    by (cases "newDate3 (ToNumber ys) (js_sub (parseInt ms) (Num 1)) (ToNumber ds)")
      (simp_all add: calculateAge_Date calculateAge_Invalid)
next
  assume h: "ToNumber ys = Num y \<and> parseInt ms = Num m \<and> ToNumber ds = Num d
        \<and> 100 \<le> y \<and> y \<le> 275000 \<and> calendarDate y m d"
  then have c: "calendarDate y m d" and y: "100 \<le> y" "y \<le> 275000" by simp_all
  have r: "0 \<le> m - 1" "m - 1 \<le> 11" "1 \<le> d" "d \<le> daysInMonth y (m - 1)"
    using c by (simp_all add: calendarDate_def)
  have nd: "newDate3 (ToNumber ys) (js_sub (parseInt ms) (Num 1)) (ToNumber ds)
      = Date (MakeDay y (m - 1) d * msPerDay)"
    using h newDate3_calendar [OF y c] by simp
  show "calculateAge now ys ms ds =
        Num (YearFromTime now - y
             - (if precedes (MonthFromTime now + 1, DateFromTime now) (m, d) then 1 else 0))"
    unfolding calculateAge_Date [OF nd] read_back [OF r]
    by (simp add: precedes_def)
next
  show "calculateAge (MakeDay 2024 5 14 * msPerDay) (Some ''2000'') (Some ''06'') (Some ''15'') = Num 23"
    by code_simp
next
  show "calculateAge (MakeDay 2024 5 15 * msPerDay) (Some ''2000'') (Some ''06'') (Some ''15'') = Num 24"
    by code_simp
qed

text \<open>
  The calendar date 1995-06-15 meets the hypotheses; the age is 28 on 2024-06-14 and 29
  on 2024-06-15.
\<close>

theorem anniversary_age_witness:
  "ToNumber (Some ''1995'') = Num 1995 \<and> parseInt (Some ''06'') = Num 6
   \<and> ToNumber (Some ''15'') = Num 15 \<and> calendarDate 1995 6 15
   \<and> calculateAge (MakeDay 2024 5 14 * msPerDay) (Some ''1995'') (Some ''06'') (Some ''15'') = Num 28
   \<and> calculateAge (MakeDay 2024 5 15 * msPerDay) (Some ''1995'') (Some ''06'') (Some ''15'') = Num 29"
proof -
  have n: "ToNumber (Some ''1995'') = Num 1995" "parseInt (Some ''06'') = Num 6"
    "ToNumber (Some ''15'') = Num 15"
    by code_simp+
  have c: "calendarDate 1995 6 15" by code_simp
  have t: "YearFromTime (MakeDay 2024 5 14 * msPerDay) = 2024"
    "MonthFromTime (MakeDay 2024 5 14 * msPerDay) = 5"
    "DateFromTime (MakeDay 2024 5 14 * msPerDay) = 14"
    "YearFromTime (MakeDay 2024 5 15 * msPerDay) = 2024"
    "MonthFromTime (MakeDay 2024 5 15 * msPerDay) = 5"
    "DateFromTime (MakeDay 2024 5 15 * msPerDay) = 15"
    by code_simp+
  have y: "(100::int) \<le> 1995 \<and> (1995::int) \<le> 275000" by simp
  note a = anniversary_age [THEN conjunct2, THEN conjunct1, rule_format]
  have "calculateAge (MakeDay 2024 5 14 * msPerDay) (Some ''1995'') (Some ''06'') (Some ''15'')
      = Num (YearFromTime (MakeDay 2024 5 14 * msPerDay) - 1995
             - (if precedes (MonthFromTime (MakeDay 2024 5 14 * msPerDay) + 1,
                             DateFromTime (MakeDay 2024 5 14 * msPerDay)) (6, 15) then 1 else 0))"
    by (rule a) (use n c y in simp)
  moreover have "calculateAge (MakeDay 2024 5 15 * msPerDay) (Some ''1995'') (Some ''06'') (Some ''15'')
      = Num (YearFromTime (MakeDay 2024 5 15 * msPerDay) - 1995
             - (if precedes (MonthFromTime (MakeDay 2024 5 15 * msPerDay) + 1,
                             DateFromTime (MakeDay 2024 5 15 * msPerDay)) (6, 15) then 1 else 0))"
    by (rule a) (use n c y in simp)
  ultimately show ?thesis
    using n c by (simp add: t precedes_def)
qed

text \<open>
  C4, as the specification words it, fails for a day that its month does not have, which
  \<open>registrationValidation\<close> lets through (any day from 1 to 31). For the birth fields
  2000, 02, 31 on 2024-03-01 the clock's (3, 1) does not precede (2, 31), so the rule
  as worded gives 24; the Date built is 2000-03-02, and \<open>calculateAge\<close> returns 23.
\<close>

theorem anniversary_age_counterexample:
  "registrationValidation 2024 (submission ''John Doe'' ''2000'' ''02'' ''31'' ''Male'') = []
   \<and> calculateAge (MakeDay 2024 2 1 * msPerDay) (Some ''2000'') (Some ''02'') (Some ''31'') = Num 23
   \<and> YearFromTime (MakeDay 2024 2 1 * msPerDay) - 2000
       - (if precedes (MonthFromTime (MakeDay 2024 2 1 * msPerDay) + 1, DateFromTime (MakeDay 2024 2 1 * msPerDay)) (2, 31)
          then 1 else 0) = 24"
  by code_simp

section \<open>The form and the server\<close>

lemma ageValidationEffect_calculateAge:
  assumes "truthy (year (dateOfBirth f))" "truthy (month (dateOfBirth f))" "truthy (day (dateOfBirth f))"
  shows "ageValidationEffect now f prev =
     (let a = calculateAge now (year (dateOfBirth f)) (month (dateOfBirth f)) (day (dateOfBirth f))
      in if gender f = Some ''Male'' \<and> js_lt a (Num 21)
         then ''Men must be at least 21 years old''
         else if gender f = Some ''Female'' \<and> js_lt a (Num 18)
         then ''Women must be at least 18 years old''
         else if js_gt a (Num 40)
         then ''Maximum age for both genders is 40 years. If above 40, please visit our other site.''
         else [])"
  using assms by (simp add: ageValidationEffect_def calculateAge_def Let_def)

text \<open>
  C2, as the code has it. On the same clock and a complete date of birth, the form's
  check and the server's \<open>calculateAge\<close> with \<open>validateAge\<close> give the same verdict
  for every gender value, and the same message for a minimum-age violation. For an age
  above 40 each side has its own text: the form ends "If above 40, please visit our
  other site." and the server ends "Please visit our other site for registration."
\<close>

theorem form_agrees_with_server:
  assumes "truthy (year (dateOfBirth f))" "truthy (month (dateOfBirth f))" "truthy (day (dateOfBirth f))"
  shows "(ageValidationEffect now f prev = []
          \<longleftrightarrow> validateAge (calculateAge now (year (dateOfBirth f)) (month (dateOfBirth f)) (day (dateOfBirth f)))
                (gender f) = [])
    \<and> validateAge (calculateAge now (year (dateOfBirth f)) (month (dateOfBirth f)) (day (dateOfBirth f)))
        (gender f) =
       (if ageValidationEffect now f prev = [] then []
        else if ageValidationEffect now f prev =
                  ''Maximum age for both genders is 40 years. If above 40, please visit our other site.''
        then [''Maximum age for both genders is 40 years. Please visit our other site for registration.'']
        else [ageValidationEffect now f prev])"
proof -
  define a where "a = calculateAge now (year (dateOfBirth f)) (month (dateOfBirth f)) (day (dateOfBirth f))"
  have e: "ageValidationEffect now f prev =
      (if gender f = Some ''Male'' \<and> js_lt a (Num 21)
         then ''Men must be at least 21 years old''
         else if gender f = Some ''Female'' \<and> js_lt a (Num 18)
         then ''Women must be at least 18 years old''
         else if js_gt a (Num 40)
         then ''Maximum age for both genders is 40 years. If above 40, please visit our other site.''
         else [])"
    using ageValidationEffect_calculateAge [OF assms] by (simp add: a_def Let_def)
  have excl: "js_lt a (Num 21) \<Longrightarrow> \<not> js_gt a (Num 40)" "js_lt a (Num 18) \<Longrightarrow> \<not> js_gt a (Num 40)"
    by (cases a; simp)+
  show ?thesis
    unfolding a_def [symmetric] e
    using excl by (auto simp: validateAge_def)
qed

text \<open>
  A man born on 2005-06-15 is 18 on 2024-06-14: both sides report the same message.
\<close>

theorem form_agrees_with_server_witness:
  "truthy (year (dateOfBirth (submission ''John Doe'' ''2005'' ''06'' ''15'' ''Male'')))
   \<and> ageValidationEffect (MakeDay 2024 5 14 * msPerDay) (submission ''John Doe'' ''2005'' ''06'' ''15'' ''Male'') []
       = ''Men must be at least 21 years old''
   \<and> validateAge (calculateAge (MakeDay 2024 5 14 * msPerDay) (Some ''2005'') (Some ''06'') (Some ''15'')) (Some ''Male'')
       = [''Men must be at least 21 years old'']"
proof -
  let ?f = "submission ''John Doe'' ''2005'' ''06'' ''15'' ''Male''"
  have t: "truthy (year (dateOfBirth ?f))" "truthy (month (dateOfBirth ?f))" "truthy (day (dateOfBirth ?f))"
    by (simp_all add: submission_def truthy_def)
  have c: "ageValidationEffect (MakeDay 2024 5 14 * msPerDay) ?f [] = ''Men must be at least 21 years old''"
    by code_simp
  have s: "year (dateOfBirth ?f) = Some ''2005''" "month (dateOfBirth ?f) = Some ''06''"
    "day (dateOfBirth ?f) = Some ''15''" "gender ?f = Some ''Male''"
    by (simp_all add: submission_def)
  show ?thesis
    using form_agrees_with_server [OF t, of "MakeDay 2024 5 14 * msPerDay" "[]"] t(1)
    unfolding c s by simp
qed

text \<open>
  C2, as the specification words it, fails on the message: for a man born on 1980-01-01
  and the clock at 2024-06-14 (age 44) the server's message and the form's message are
  different texts.
\<close>

theorem form_message_differs_counterexample:
  "validateAge (calculateAge (MakeDay 2024 5 14 * msPerDay) (Some ''1980'') (Some ''01'') (Some ''01'')) (Some ''Male'')
     = [''Maximum age for both genders is 40 years. Please visit our other site for registration.'']
   \<and> ageValidationEffect (MakeDay 2024 5 14 * msPerDay) (submission ''John Doe'' ''1980'' ''01'' ''01'' ''Male'') []
     = ''Maximum age for both genders is 40 years. If above 40, please visit our other site.''"
  by code_simp

section \<open>Genders outside the enumeration\<close>

text \<open>
  C10. For a gender value other than Male and Female, \<open>validateAge\<close> applies the
  maximum-age rule alone, so an age of at most 40 has no violation; and
  \<open>POST /api/validate-age\<close>, which asks only that the gender is not empty, answers 200
  with \<open>isValid\<close> true for such a gender whenever the age is at most 40.
\<close>

theorem other_gender_passes:
  assumes "g \<noteq> Some ''Male''" "g \<noteq> Some ''Female''"
  shows "validateAge n g =
           (if js_gt n (Num 40)
            then [''Maximum age for both genders is 40 years. Please visit our other site for registration.'']
            else [])
    \<and> (a \<le> 40 \<longrightarrow> validateAge (Num a) g = [])
    \<and> (truthy g \<and> truthy y \<and> truthy m \<and> truthy d
          \<and> calculateAge now y m d = Num a \<and> a \<le> 40 \<longrightarrow>
        validate_age now \<lparr> year = y, month = m, day = d \<rparr> g
          = (200, AgeReport (Num a) True []))"
  using assms by (simp add: validateAge_other validate_age_def Let_def)

text \<open>
  The gender Other with a birth date of 2010-06-15, on 2024-06-14: age 13, reported as
  valid.
\<close>

theorem other_gender_passes_witness:
  "validateAge (Num 17) (Some ''Other'') = []
   \<and> validate_age (MakeDay 2024 5 14 * msPerDay)
        \<lparr> year = Some ''2010'', month = Some ''06'', day = Some ''15'' \<rparr> (Some ''Other'')
      = (200, AgeReport (Num 13) True [])"
proof -
  have g: "Some ''Other'' \<noteq> Some ''Male''" "Some ''Other'' \<noteq> Some ''Female''" by simp_all
  have a: "calculateAge (MakeDay 2024 5 14 * msPerDay) (Some ''2010'') (Some ''06'') (Some ''15'') = Num 13"
    by code_simp
  have t: "truthy (Some ''Other'')" "truthy (Some ''2010'')" "truthy (Some ''06'')" "truthy (Some ''15'')"
    by (simp_all add: truthy_def)
  show ?thesis
    using other_gender_passes [OF g, of "Num 17" 17] 
      other_gender_passes [OF g, of "Num 13" 13 "Some ''2010''" "Some ''06''" "Some ''15''" "MakeDay 2024 5 14 * msPerDay"] t
    by (simp add: a)
qed

section \<open>The store\<close>

lemma set_replaceFirst: "set (replaceFirst i v s) \<subseteq> insert v (set s)"
  by (induction s) auto

lemma set_removeFirst: "set (removeFirst i s) \<subseteq> set s"
  by (induction s) auto

lemma findOne_Some_iff: "findOne q s \<noteq> None \<longleftrightarrow> (\<exists>u \<in> set s. q u)"
  by (auto simp: findOne_def find_None_iff)

lemma register_cases:
  "snd (register maxYear now s body) = s
   \<or> (\<exists>u. snd (register maxYear now s body) = s @ [u]
          \<and> fst (fst (register maxYear now s body)) = 201
          \<and> registrationValidation maxYear body = []
          \<and> age u = calculateAge now (year (dateOfBirth body)) (month (dateOfBirth body)) (day (dateOfBirth body))
          \<and> gender u = gender body
          \<and> validateAge (age u) (gender u) = [])"
  by (simp add: register_def Let_def)

lemma update_cases:
  "snd (update maxYear now s ident body) = s
   \<or> (\<exists>i v. snd (update maxYear now s ident body) = replaceFirst i v s
          \<and> validateAge (age v) (gender v) = [])"
proof -
  define a where
    "a = calculateAge now (year (dateOfBirth body)) (month (dateOfBirth body)) (day (dateOfBirth body))"
  define changes where
    "changes = \<lparr> fullName = trimmed (fullName body), dateOfBirth = dateOfBirth body,
       timeOfBirth = timeOfBirth body, birthPlace = trimmed (birthPlace body),
       gender = gender body, height = height body, weight = weight body,
       astrological_sign = astrological_sign body \<rparr>"
  have u: "update maxYear now s ident body =
     (if registrationValidation maxYear body \<noteq> []
      then ((400, ErrorDetails ''Validation failed'' (registrationValidation maxYear body)), s)
      else if validateAge a (gender body) \<noteq> []
      then ((400, ErrorDetails ''Age validation failed'' (validateAge a (gender body))), s)
      else case ident of
             None \<Rightarrow> ((400, ErrorOnly ''Invalid user ID format''), s)
           | Some i \<Rightarrow>
               if schemaErrors changes \<noteq> []
               then ((400, ErrorDetails ''Database validation failed'' (schemaErrors changes)), s)
               else
                 (case findById i s of
                    None \<Rightarrow> ((404, ErrorOnly ''User not found''), s)
                  | Some u \<Rightarrow>
                      ((200, UserMessage ''User updated successfully''
                          (details.extend changes
                             \<lparr> uid = uid u, age = a, createdAt = createdAt u, status = status u \<rparr>)),
                       replaceFirst i
                         (details.extend changes
                            \<lparr> uid = uid u, age = a, createdAt = createdAt u, status = status u \<rparr>) s)))"
    by (simp add: update_def Let_def a_def changes_def split: option.splits)
  have v: "\<And>u. validateAge a (gender body) = [] \<Longrightarrow>
      validateAge (age (details.extend changes
          \<lparr> uid = uid u, age = a, createdAt = createdAt u, status = status u \<rparr>))
        (gender (details.extend changes
          \<lparr> uid = uid u, age = a, createdAt = createdAt u, status = status u \<rparr>)) = []"
    by (simp add: details.defs changes_def)
  show ?thesis
  proof (cases "registrationValidation maxYear body = [] \<and> validateAge a (gender body) = []
      \<and> schemaErrors changes = [] \<and> (\<exists>i u. ident = Some i \<and> findById i s = Some u)")
    case True
    then obtain i u where iu: "ident = Some i" "findById i s = Some u" by blast
    have "snd (update maxYear now s ident body) =
        replaceFirst i (details.extend changes
          \<lparr> uid = uid u, age = a, createdAt = createdAt u, status = status u \<rparr>) s"
      unfolding u using True iu by simp
    then show ?thesis using v [of u] True by blast
  next
    case False
    then have "snd (update maxYear now s ident body) = s"
      unfolding u by (auto split: option.splits)
    then show ?thesis by simp
  qed
qed

lemma update_preserves:
  assumes "\<forall>u \<in> set s. eligible u"
  shows "\<forall>u \<in> set (snd (update maxYear now s ident body)). eligible u"
  using update_cases [of maxYear now s ident body] assms set_replaceFirst
  by (fastforce simp: eligible_def)

lemma delete_cases:
  "snd (delete s ident) = s \<or> (\<exists>i. snd (delete s ident) = removeFirst i s)"
  by (auto simp: delete_def split: option.splits)

lemma handle_preserves:
  assumes "\<forall>u \<in> set s. eligible u"
  shows "\<forall>u \<in> set (snd (handle s r)). eligible u"
proof (cases r)
  case (PostRegister maxYear now body)
  show ?thesis
    using register_cases [of maxYear now s body] assms
    by (auto simp: PostRegister eligible_def)
next
  case (PutUser maxYear now ident body)
  show ?thesis
    using update_preserves [OF assms] by (simp add: PutUser)
next
  case (DeleteUser ident)
  show ?thesis
    using delete_cases [of s ident] assms set_removeFirst
    by (fastforce simp: DeleteUser)
qed

lemma run_preserves:
  "\<forall>u \<in> set s. eligible u \<Longrightarrow> \<forall>u \<in> set (run s rs). eligible u"
proof (induction rs arbitrary: s)
  case Nil
  then show ?case by simp
next
  case (Cons r rs)
  have "\<forall>u \<in> set (snd (handle s r)). eligible u"
    using handle_preserves [OF Cons.prems] .
  then show ?case using Cons.IH by simp
qed

text \<open>
  C1. Every request keeps the invariant that each stored registrant is eligible by its
  stored age and gender, and so every store reached from the empty one by register,
  update and delete requests has only eligible registrants.
\<close>

theorem store_eligibility_invariant:
  "((\<forall>u \<in> set s. eligible u) \<longrightarrow> (\<forall>u \<in> set (snd (handle s r)). eligible u))
   \<and> (\<forall>u \<in> set (run [] rs). eligible u)"
  using handle_preserves [of s r] run_preserves [of "[]" rs] by simp

text \<open>
  A registration followed by an update of the gender leaves one registrant, who is
  eligible.
\<close>

theorem store_eligibility_invariant_witness:
  "length (run []
      [PostRegister 2024 (MakeDay 2024 5 14 * msPerDay) (submission ''John Doe'' ''1995'' ''06'' ''15'' ''Male''),
       PutUser 2024 (MakeDay 2024 5 15 * msPerDay) (Some 1) (submission ''John Doe'' ''1995'' ''06'' ''15'' ''Female'')]) = 1
   \<and> eligible (hd (run []
      [PostRegister 2024 (MakeDay 2024 5 14 * msPerDay) (submission ''John Doe'' ''1995'' ''06'' ''15'' ''Male''),
       PutUser 2024 (MakeDay 2024 5 15 * msPerDay) (Some 1) (submission ''John Doe'' ''1995'' ''06'' ''15'' ''Female'')]))"
proof -
  let ?rs = "[PostRegister 2024 (MakeDay 2024 5 14 * msPerDay) (submission ''John Doe'' ''1995'' ''06'' ''15'' ''Male''),
       PutUser 2024 (MakeDay 2024 5 15 * msPerDay) (Some 1) (submission ''John Doe'' ''1995'' ''06'' ''15'' ''Female'')]"
  have l: "length (run [] ?rs) = 1" by code_simp
  then have "hd (run [] ?rs) \<in> set (run [] ?rs)" by (cases "run [] ?rs") simp_all
  then show ?thesis
    using store_eligibility_invariant [of "[]" "DeleteUser None" ?rs] l by blast
qed

section \<open>Duplicates\<close>

text \<open>
  C7, as the code has it. A register request whose trimmed name and date of birth match
  a stored registrant never changes the store. It is answered 409 when it passes
  \<open>registrationValidation\<close> and the eligibility rule, which are checked first, and 400
  otherwise.
\<close>

theorem duplicate_rejected:
  assumes "\<exists>u \<in> set s. fullName u = trimmed (fullName body)
             \<and> year (dateOfBirth u) = year (dateOfBirth body)
             \<and> month (dateOfBirth u) = month (dateOfBirth body)
             \<and> day (dateOfBirth u) = day (dateOfBirth body)"
  shows "snd (register maxYear now s body) = s
    \<and> (if registrationValidation maxYear body = []
          \<and> validateAge (calculateAge now (year (dateOfBirth body)) (month (dateOfBirth body))
                (day (dateOfBirth body))) (gender body) = []
       then fst (register maxYear now s body)
              = (409, ErrorMessage ''User already exists''
                        ''A user with the same name and date of birth already exists'')
       else fst (fst (register maxYear now s body)) = 400)"
proof -
  have "findOne (\<lambda>u. fullName u = trimmed (fullName body)
             \<and> year (dateOfBirth u) = year (dateOfBirth body)
             \<and> month (dateOfBirth u) = month (dateOfBirth body)
             \<and> day (dateOfBirth u) = day (dateOfBirth body)) s \<noteq> None"
    using assms unfolding findOne_Some_iff .
  then show ?thesis
    by (simp add: register_def Let_def)
qed

text \<open>
  Registering John Doe, born 1995-06-15, a second time (with blanks around the name) is
  answered 409 and the store is as it was.
\<close>

theorem duplicate_rejected_witness:
  "snd (register 2024 (MakeDay 2024 5 15 * msPerDay)
          (run [] [PostRegister 2024 (MakeDay 2024 5 14 * msPerDay)
                     (submission ''John Doe'' ''1995'' ''06'' ''15'' ''Male'')])
          (submission '' John Doe '' ''1995'' ''06'' ''15'' ''Male''))
     = run [] [PostRegister 2024 (MakeDay 2024 5 14 * msPerDay)
                 (submission ''John Doe'' ''1995'' ''06'' ''15'' ''Male'')]
   \<and> fst (register 2024 (MakeDay 2024 5 15 * msPerDay)
          (run [] [PostRegister 2024 (MakeDay 2024 5 14 * msPerDay)
                     (submission ''John Doe'' ''1995'' ''06'' ''15'' ''Male'')])
          (submission '' John Doe '' ''1995'' ''06'' ''15'' ''Male''))
     = (409, ErrorMessage ''User already exists''
               ''A user with the same name and date of birth already exists'')"
proof -
  let ?s = "run [] [PostRegister 2024 (MakeDay 2024 5 14 * msPerDay)
                     (submission ''John Doe'' ''1995'' ''06'' ''15'' ''Male'')]"
  let ?b = "submission '' John Doe '' ''1995'' ''06'' ''15'' ''Male''"
  have m: "\<exists>u \<in> set ?s. fullName u = trimmed (fullName ?b)
             \<and> year (dateOfBirth u) = year (dateOfBirth ?b)
             \<and> month (dateOfBirth u) = month (dateOfBirth ?b)
             \<and> day (dateOfBirth u) = day (dateOfBirth ?b)"
    by code_simp
  have v: "registrationValidation 2024 ?b = []" by code_simp
  have e: "validateAge (calculateAge (MakeDay 2024 5 15 * msPerDay) (year (dateOfBirth ?b))
      (month (dateOfBirth ?b)) (day (dateOfBirth ?b))) (gender ?b) = []"
    by code_simp
  show ?thesis
    using duplicate_rejected [OF m, of 2024 "MakeDay 2024 5 15 * msPerDay"] v e by simp
qed

text \<open>
  C7, as the specification words it, fails when the duplicate no longer passes the
  eligibility rule: Jane Doe, born 1980-01-01, registers at 40 in 2020; the same request
  in 2024 matches her record and is answered 400, not 409.
\<close>

theorem duplicate_not_409_counterexample:
  "length (run [] [PostRegister 2020 (MakeDay 2020 5 14 * msPerDay)
                     (submission ''Jane Doe'' ''1980'' ''01'' ''01'' ''Female'')]) = 1
   \<and> fullName (hd (run [] [PostRegister 2020 (MakeDay 2020 5 14 * msPerDay)
                     (submission ''Jane Doe'' ''1980'' ''01'' ''01'' ''Female'')]))
       = trimmed (fullName (submission ''Jane Doe'' ''1980'' ''01'' ''01'' ''Female''))
   \<and> dateOfBirth (hd (run [] [PostRegister 2020 (MakeDay 2020 5 14 * msPerDay)
                     (submission ''Jane Doe'' ''1980'' ''01'' ''01'' ''Female'')]))
       = dateOfBirth (submission ''Jane Doe'' ''1980'' ''01'' ''01'' ''Female'')
   \<and> fst (register 2024 (MakeDay 2024 5 14 * msPerDay)
          (run [] [PostRegister 2020 (MakeDay 2020 5 14 * msPerDay)
                     (submission ''Jane Doe'' ''1980'' ''01'' ''01'' ''Female'')])
          (submission ''Jane Doe'' ''1980'' ''01'' ''01'' ''Female''))
       = (400, ErrorDetails ''Age validation failed''
            [''Maximum age for both genders is 40 years. Please visit our other site for registration.''])"
  by code_simp

section \<open>Updates that fail the eligibility rule\<close>

text \<open>
  C8. An update whose recomputed age fails the eligibility rule for the submitted gender
  is answered 400, and the store, hence the record under every identifier, is unchanged.
\<close>

theorem update_rejected_unchanged:
  assumes "validateAge (calculateAge now (year (dateOfBirth body)) (month (dateOfBirth body))
              (day (dateOfBirth body))) (gender body) \<noteq> []"
  shows "fst (fst (update maxYear now s ident body)) = 400
    \<and> snd (update maxYear now s ident body) = s
    \<and> (\<forall>i. findById i (snd (update maxYear now s ident body)) = findById i s)"
  using assms by (simp add: update_def Let_def)

text \<open>
  Changing John Doe's year of birth to 1979 (age 45) is answered 400 and his record
  keeps the age 28.
\<close>

theorem update_rejected_unchanged_witness:
  "fst (update 2024 (MakeDay 2024 5 15 * msPerDay)
          (run [] [PostRegister 2024 (MakeDay 2024 5 14 * msPerDay)
                     (submission ''John Doe'' ''1995'' ''06'' ''15'' ''Male'')])
          (Some 1) (submission ''John Doe'' ''1979'' ''01'' ''01'' ''Male''))
     = (400, ErrorDetails ''Age validation failed''
          [''Maximum age for both genders is 40 years. Please visit our other site for registration.''])
   \<and> snd (update 2024 (MakeDay 2024 5 15 * msPerDay)
          (run [] [PostRegister 2024 (MakeDay 2024 5 14 * msPerDay)
                     (submission ''John Doe'' ''1995'' ''06'' ''15'' ''Male'')])
          (Some 1) (submission ''John Doe'' ''1979'' ''01'' ''01'' ''Male''))
     = run [] [PostRegister 2024 (MakeDay 2024 5 14 * msPerDay)
                 (submission ''John Doe'' ''1995'' ''06'' ''15'' ''Male'')]
   \<and> map_option age (findById 1 (run [] [PostRegister 2024 (MakeDay 2024 5 14 * msPerDay)
                 (submission ''John Doe'' ''1995'' ''06'' ''15'' ''Male'')])) = Some (Num 28)"
proof -
  let ?s = "run [] [PostRegister 2024 (MakeDay 2024 5 14 * msPerDay)
                     (submission ''John Doe'' ''1995'' ''06'' ''15'' ''Male'')]"
  let ?b = "submission ''John Doe'' ''1979'' ''01'' ''01'' ''Male''"
  have e: "validateAge (calculateAge (MakeDay 2024 5 15 * msPerDay) (year (dateOfBirth ?b))
      (month (dateOfBirth ?b)) (day (dateOfBirth ?b))) (gender ?b) \<noteq> []"
    by code_simp
  have f: "fst (update 2024 (MakeDay 2024 5 15 * msPerDay) ?s (Some 1) ?b)
     = (400, ErrorDetails ''Age validation failed''
          [''Maximum age for both genders is 40 years. Please visit our other site for registration.''])"
    by code_simp
  have g: "map_option age (findById 1 ?s) = Some (Num 28)" by code_simp
  show ?thesis
    using update_rejected_unchanged [OF e, of 2024 ?s "Some 1"] f g by simp
qed

end
